theory Spec2Isabelle
  imports Complex_Main
begin

section \<open>Data model of the swap service\<close>

text \<open>
  Amounts travel through the program as decimal strings and are compared as
  \<open>BigNumber\<close> values. The data model fixes them to integer strings in the smallest
  unit, so an amount is modelled by the integer it denotes (\<open>int\<close>, unbounded like
  \<open>BigNumber\<close>); \<open>toString\<close> of a \<open>BigNumber\<close> is the same integer again.
  An optional or nullable field is an \<open>option\<close>, and \<open>x || d\<close> on such a field is
  \<open>orElse x d\<close>.
\<close>

definition orElse :: "'a option \<Rightarrow> 'a \<Rightarrow> 'a" where
  "orElse x d = (case x of None \<Rightarrow> d | Some v \<Rightarrow> v)"

text \<open>
  What JavaScript throws: reading a property of \<open>undefined\<close> is a \<open>TypeError\<close>;
  an awaited call to a collaborator may reject with a reason of its own. A function that
  may throw returns \<open>exn + 'a\<close>; \<open>bindE\<close> sequences two such computations and
  \<open>deref\<close> is the read of a property of a value that may be \<open>undefined\<close>.
\<close>

datatype exn = TypeError | Rejected string

definition bindE :: "exn + 'a \<Rightarrow> ('a \<Rightarrow> exn + 'b) \<Rightarrow> exn + 'b" where
  "bindE m f = (case m of Inl e \<Rightarrow> Inl e | Inr v \<Rightarrow> f v)"

definition deref :: "'a option \<Rightarrow> exn + 'a" where
  "deref x = (case x of None \<Rightarrow> Inl TypeError | Some v \<Rightarrow> Inr v)"

datatype BasicTxErrorType = INTERNAL_ERROR | NOT_ENOUGH_BALANCE

datatype SwapErrorType =
    ERROR_FETCHING_QUOTE
  | QUOTE_TIMEOUT
  | UNKNOWN
  | ASSET_NOT_SUPPORTED
  | INVALID_RECIPIENT
  | SWAP_EXCEED_ALLOWANCE
  | SWAP_NOT_ENOUGH_BALANCE
  | AMOUNT_CANNOT_BE_ZERO

datatype TxErrorType = BasicTx BasicTxErrorType | SwapTx SwapErrorType

text \<open>
  The message of a \<open>TransactionError\<close>. The translated message of
  \<open>validateXcmStep\<close> is kept as the replacement record handed to \<open>t\<close>; the two
  template strings of \<open>validateSwapStep\<close> are kept as their interpolated values
  (the formatted amount and the asset symbol).
\<close>

datatype Message =
    XcmMaxMessage (replace_symbol: string) (maxValue: string) (inputNetworkName: string)
      (altNetworkName: string) (currentValue: string) (maxXCMValue: string)
  | InsufficientBalanceMessage string string
  | AmountTooHighMessage string string

datatype TransactionError = TransactionError (errorType: TxErrorType) (message: "Message option")

datatype SwapError = SwapError (swapErrorType: SwapErrorType) (swapErrorMessage: "string option")

record ChainAsset =
  slug :: string
  originChain :: string
  symbol :: string
  decimals :: "nat option"
  minAmount :: "int option"

record ChainInfo =
  chain_slug :: string
  chain_name :: string

record SwapPair =
  pair_slug :: string
  pair_from :: string
  pair_to :: string

datatype SwapFeeType = NETWORK_FEE | PLATFORM_FEE | WALLET_FEE

record SwapFeeComponent =
  feeType :: SwapFeeType
  amount :: "int option"
  tokenSlug :: string

record SwapFeeInfo =
  feeComponent :: "SwapFeeComponent list"
  defaultFeeToken :: string
  feeOptions :: "string list"

record SwapProvider =
  provider_id :: string
  provider_name :: string

record SwapRequest =
  req_address :: string
  req_pair :: SwapPair
  req_fromAmount :: int

record SwapQuote =
  quote_pair :: SwapPair
  quote_fromAmount :: int
  quote_toAmount :: int
  rate :: rat
  provider :: SwapProvider
  aliveUntil :: int
  minSwap :: "int option"
  feeInfo :: SwapFeeInfo
  route_path :: "string list"

datatype StepType = DEFAULT | XCM | TOKEN_APPROVAL | SET_FEE_TOKEN | SWAP

datatype StepMetadata =
  XcmMetadata (sendingValue: int) (originTokenInfo: ChainAsset) (destinationTokenInfo: ChainAsset)

record BaseStepDetail =
  metadata :: "StepMetadata option"
  step_name :: string
  step_type :: StepType

record CommonStepDetail = BaseStepDetail +
  step_id :: nat

record OptimalSwapPath =
  totalFee :: "SwapFeeInfo list"
  steps :: "CommonStepDetail list"

record OptimalSwapPathParams =
  request :: SwapRequest
  selectedQuote :: "SwapQuote option"

record ValidateSwapProcessParams =
  address :: string
  process :: OptimalSwapPath
  vp_selectedQuote :: "SwapQuote option"
  recipient :: "string option"

record AmountData =
  amount_value :: int
  amount_decimals :: nat
  amount_symbol :: string

record HydradxPreValidationMetadata =
  md_chain :: "ChainInfo option"
  maxSwap :: AmountData

record SwapEarlyValidation =
  error :: "SwapErrorType option"
  ev_metadata :: "HydradxPreValidationMetadata option"

text \<open>
  A step generator (\<open>GenSwapStepFunc\<close>) is an asynchronous function of the parameters.
  It may consult the outside world, so it is a function on a world state \<open>'s\<close> that it
  hands back; it yields a step with its fee, no step (\<open>undefined\<close>), or throws.
\<close>

type_synonym 's GenSwapStepFunc =
  "OptimalSwapPathParams \<Rightarrow> 's \<Rightarrow> (exn + (BaseStepDetail \<times> SwapFeeInfo) option) \<times> 's"

section \<open>Collaborators and imported helpers\<close>

text \<open>
  The chain service and the balance service are outside the sources at hand. A lookup in
  the chain service indexes a registry, so it may return \<open>undefined\<close>; a balance query
  is awaited and may reject.
\<close>

record ChainService =
  getAssetBySlug :: "string \<Rightarrow> ChainAsset option"
  getChainInfoByKey :: "string \<Rightarrow> ChainInfo option"

record BalanceService =
  getTokenFreeBalance :: "string \<Rightarrow> string \<Rightarrow> string \<Rightarrow> exn + int"

record SwapBaseHandler =
  providerSlug :: string
  providerName :: string
  chainService :: ChainService
  balanceService :: BalanceService

text \<open>
  The constants and helper functions that the handlers import from modules outside the
  sources at hand (\<open>swap-service/utils\<close>, \<open>chain-service/utils\<close>, \<open>utils\<close>,
  \<open>@subwallet/chain-list\<close>, \<open>@polkadot/util-crypto\<close>, \<open>koni/api/xcm\<close>), and the
  clock read by \<open>Date.now()\<close>. They are parameters of the functions below. A helper
  that is handed a value that may be \<open>undefined\<close> takes an \<open>option\<close> and may throw.
  \<open>xcmPaymentInfo origin dest value recipient\<close> stands for the three awaited calls
  that connect to the origin chain, build the transfer with \<open>createXcmExtrinsic\<close> and
  ask it for its \<open>paymentInfo\<close>; it yields the \<open>partialFee\<close>.
  \<open>inflateFee partialFee\<close> stands for \<open>Math.round(partialFee * 1.2)\<close>, which the
  source computes on double-precision numbers; that arithmetic is not modelled, so the
  function is a parameter and nothing below depends on its values.
\<close>

record Imports =
  DEFAULT_SWAP_FIRST_STEP :: CommonStepDetail
  MOCK_SWAP_FEE :: SwapFeeInfo
  getSwapAlternativeAsset :: "SwapPair \<Rightarrow> string option"
  SWAP_QUOTE_TIMEOUT_MAP :: "string \<Rightarrow> int option"
  SWAP_QUOTE_TIMEOUT_default :: int
  calculateSwapRate :: "int \<Rightarrow> int \<Rightarrow> ChainAsset \<Rightarrow> ChainAsset option \<Rightarrow> exn + rat"
  getEarlyHydradxValidationError ::
    "SwapErrorType \<Rightarrow> HydradxPreValidationMetadata option \<Rightarrow> SwapError"
  formatNumber :: "int \<Rightarrow> nat \<Rightarrow> string"
  isEthereumAddress :: "string \<Rightarrow> bool"
  isChainEvmCompatible :: "ChainInfo option \<Rightarrow> exn + bool"
  getChainNativeTokenSlug :: "ChainInfo option \<Rightarrow> exn + string"
  getTokenOnChainAssetId :: "ChainAsset option \<Rightarrow> exn + string"
  isNativeToken :: "ChainAsset \<Rightarrow> bool"
  HYDRADX :: string
  HYDRADX_TESTNET :: string
  xcmPaymentInfo :: "ChainAsset \<Rightarrow> ChainAsset \<Rightarrow> int \<Rightarrow> string \<Rightarrow> exn + int"
  inflateFee :: "int \<Rightarrow> int"
  now :: int

text \<open>
  Modelled from the spec: \<open>_getTokenMinAmount\<close> and \<open>_getAssetDecimals\<close> of
  \<open>chain-service/utils\<close> are not among the sources. The spec reads the first as the
  asset's \<open>minAmount\<close> (the minimum holding floor) and the second as the asset's
  declared decimal count; an absent value counts as 0, as \<open>validateXcmStep\<close> itself
  does with \<open>minAmount || '0'\<close> and \<open>decimals || 0\<close>.
\<close>

definition getTokenMinAmount :: "ChainAsset \<Rightarrow> int" where
  "getTokenMinAmount tokenInfo = orElse (minAmount tokenInfo) 0"

definition getAssetDecimals :: "ChainAsset \<Rightarrow> nat" where
  "getAssetDecimals assetInfo = orElse (decimals assetInfo) 0"

section \<open>SwapBaseHandler\<close>

subsection \<open>generateOptimalProcess\<close>

text \<open>
  The \<open>for\<close> loop inside the \<open>try\<close> block, on the path built so far. A generator that
  throws ends the loop and the \<open>catch\<close> returns the path as it stands.
\<close>

fun genSteps ::
  "OptimalSwapPathParams \<Rightarrow> 's GenSwapStepFunc list \<Rightarrow> OptimalSwapPath \<Rightarrow> 's \<Rightarrow> OptimalSwapPath \<times> 's"
where
  "genSteps params [] result s = (result, s)"
| "genSteps params (genStepFunc # rest) result s =
     (case genStepFunc params s of
        (Inl e, s') \<Rightarrow> (result, s')
      | (Inr None, s') \<Rightarrow> genSteps params rest result s'
      | (Inr (Some (step, fee)), s') \<Rightarrow>
          genSteps params rest
            \<lparr> totalFee = totalFee result @ [fee],
              steps = steps result @
                [\<lparr> metadata = metadata step, step_name = step_name step,
                   step_type = step_type step, step_id = length (steps result) \<rparr>] \<rparr>
            s')"

definition generateOptimalProcess ::
  "Imports \<Rightarrow> OptimalSwapPathParams \<Rightarrow> 's GenSwapStepFunc list \<Rightarrow> 's \<Rightarrow> OptimalSwapPath \<times> 's"
where
  "generateOptimalProcess imp params genStepFuncList s =
     genSteps params genStepFuncList
       \<lparr> totalFee = [MOCK_SWAP_FEE imp], steps = [DEFAULT_SWAP_FIRST_STEP imp] \<rparr> s"

text \<open>No generator of the list throws when the list is run in order from state \<open>s\<close>.\<close>

fun noFailure :: "OptimalSwapPathParams \<Rightarrow> 's GenSwapStepFunc list \<Rightarrow> 's \<Rightarrow> bool" where
  "noFailure params [] s = True"
| "noFailure params (g # gs) s =
     (case g params s of (Inl e, s') \<Rightarrow> False | (Inr r, s') \<Rightarrow> noFailure params gs s')"

subsection \<open>validateXcmStep\<close>

text \<open>\<open>xs[i]\<close> of JavaScript: \<open>undefined\<close> beyond the end of the array.\<close>

definition at_index :: "'a list \<Rightarrow> nat \<Rightarrow> 'a option" where
  "at_index xs i = (if i < length xs then Some (xs ! i) else None)"

definition validateXcmStep ::
  "Imports \<Rightarrow> SwapBaseHandler \<Rightarrow> ValidateSwapProcessParams \<Rightarrow> nat \<Rightarrow> exn + TransactionError list"
where
  "validateXcmStep imp this params stepIndex =
     bindE (deref (vp_selectedQuote params)) (\<lambda>quote.
     let bnAmount = quote_fromAmount quote;
         swapPair = quote_pair quote
     in
     case getSwapAlternativeAsset imp swapPair of
       None \<Rightarrow> Inr [TransactionError (BasicTx INTERNAL_ERROR) None]
     | Some alternativeAssetSlug \<Rightarrow>
     bindE (deref (getAssetBySlug (chainService this) alternativeAssetSlug)) (\<lambda>alternativeAsset.
     bindE (getTokenFreeBalance (balanceService this) (address params)
              (originChain alternativeAsset) alternativeAssetSlug) (\<lambda>bnAlternativeAssetBalance.
     bindE (deref (getAssetBySlug (chainService this) (pair_from swapPair))) (\<lambda>fromAsset.
     bindE (getTokenFreeBalance (balanceService this) (address params)
              (originChain fromAsset) (slug fromAsset)) (\<lambda>bnFromAssetBalance.
     let missingAmount = bnAmount - bnFromAssetBalance in
     bindE (deref (at_index (totalFee (process params)) stepIndex)) (\<lambda>stepFee.
     bindE (deref (at_index (feeComponent stepFee) 0)) (\<lambda>xcmFeeComponent.
     let xcmFee = orElse (amount xcmFeeComponent) 0;
         xcmAmount = missingAmount + xcmFee;
         altInputTokenMinAmount = orElse (minAmount alternativeAsset) 0
     in
     if \<not> (bnAlternativeAssetBalance - xcmAmount \<ge> altInputTokenMinAmount) then
       let maxBn = bnFromAssetBalance + bnAlternativeAssetBalance - xcmFee - altInputTokenMinAmount;
           maxValue' = formatNumber imp maxBn (orElse (decimals fromAsset) 0)
       in
       bindE (deref (getAssetBySlug (chainService this) alternativeAssetSlug)) (\<lambda>altInputTokenInfo.
       let symbol' = symbol altInputTokenInfo;
           alternativeChain = getChainInfoByKey (chainService this) (originChain altInputTokenInfo);
           chain = getChainInfoByKey (chainService this) (originChain fromAsset)
       in
       bindE (deref chain) (\<lambda>chain.
       bindE (deref alternativeChain) (\<lambda>alternativeChain.
       let inputNetworkName' = chain_name chain;
           altNetworkName' = chain_name alternativeChain;
           currentValue' = formatNumber imp bnFromAssetBalance (orElse (decimals fromAsset) 0);
           bnMaxXCM = bnAlternativeAssetBalance - xcmFee - altInputTokenMinAmount;
           maxXCMValue' = formatNumber imp bnMaxXCM (orElse (decimals fromAsset) 0)
       in
       Inr [TransactionError (BasicTx NOT_ENOUGH_BALANCE)
              (Some (XcmMaxMessage symbol' maxValue' inputNetworkName' altNetworkName'
                       currentValue' maxXCMValue'))])))
     else Inr [])))))))"

subsection \<open>validateTokenApproveStep, validateSetFeeTokenStep\<close>

definition validateTokenApproveStep ::
  "SwapBaseHandler \<Rightarrow> ValidateSwapProcessParams \<Rightarrow> nat \<Rightarrow> exn + TransactionError list"
where
  "validateTokenApproveStep this params stepIndex = Inr []"

definition validateSetFeeTokenStep ::
  "SwapBaseHandler \<Rightarrow> ValidateSwapProcessParams \<Rightarrow> nat \<Rightarrow> exn + TransactionError list"
where
  "validateSetFeeTokenStep this params stepIndex = Inr []"

subsection \<open>validateSwapStep\<close>

definition validateSwapStep ::
  "Imports \<Rightarrow> SwapBaseHandler \<Rightarrow> ValidateSwapProcessParams \<Rightarrow> bool \<Rightarrow> exn + TransactionError list"
where
  "validateSwapStep imp this params isXcmOk =
     (case vp_selectedQuote params of
        None \<Rightarrow> Inr [TransactionError (BasicTx INTERNAL_ERROR) None]
      | Some selectedQuote' \<Rightarrow>
     let currentTimestamp = now imp in
     if aliveUntil selectedQuote' \<le> currentTimestamp then
       Inr [TransactionError (SwapTx QUOTE_TIMEOUT) None]
     else
     let bnAmount = quote_fromAmount selectedQuote' in
     bindE (deref (getAssetBySlug (chainService this) (pair_from (quote_pair selectedQuote')))) (\<lambda>fromAsset.
     bindE (getTokenFreeBalance (balanceService this) (address params)
              (originChain fromAsset) (slug fromAsset)) (\<lambda>bnFromAssetBalance.
     case (case minSwap selectedQuote' of
             None \<Rightarrow> None
           | Some minProtocolSwap \<Rightarrow>
               if bnFromAssetBalance \<le> minProtocolSwap then
                 let parsedMinSwapValue = formatNumber imp minProtocolSwap (getAssetDecimals fromAsset)
                 in Some [TransactionError (SwapTx SWAP_NOT_ENOUGH_BALANCE)
                            (Some (InsufficientBalanceMessage parsedMinSwapValue (symbol fromAsset)))]
               else None) of
       Some errors \<Rightarrow> Inr errors
     | None \<Rightarrow>
     let bnSrcAssetMinAmount = getTokenMinAmount fromAsset;
         bnMaxBalanceSwap = bnFromAssetBalance - bnSrcAssetMinAmount
     in
     if bnAmount \<ge> bnMaxBalanceSwap then
       let parsedMaxBalanceSwap = formatNumber imp bnMaxBalanceSwap (getAssetDecimals fromAsset)
       in Inr [TransactionError (SwapTx SWAP_EXCEED_ALLOWANCE)
                 (Some (AmountTooHighMessage parsedMaxBalanceSwap (symbol fromAsset)))]
     else
     case recipient params of
       None \<Rightarrow> Inr []
     | Some recipient' \<Rightarrow>
         bindE (deref (getAssetBySlug (chainService this) (pair_to (quote_pair selectedQuote')))) (\<lambda>toAsset.
         let destChainInfo = getChainInfoByKey (chainService this) (originChain toAsset);
             isEvmAddress = isEthereumAddress imp recipient'
         in
         bindE (isChainEvmCompatible imp destChainInfo) (\<lambda>isEvmDestChain.
         if (isEvmAddress \<and> \<not> isEvmDestChain) \<or> (\<not> isEvmAddress \<and> isEvmDestChain) then
           Inr [TransactionError (SwapTx INVALID_RECIPIENT) None]
         else Inr [])))))"

section \<open>HydradxHandler\<close>

text \<open>
  The handler holds the base handler by composition, the trade router that \<open>init\<close>
  creates, and its readiness flag. The trade router is an opaque handle.
\<close>

datatype TradeRouter = TradeRouter

record HydradxHandler =
  swapBaseHandler :: SwapBaseHandler
  tradeRouter :: "TradeRouter option"
  isTestnet :: bool
  isReady :: bool

text \<open>The constructor: not ready, no trade router, until \<open>init\<close> has completed.\<close>

definition newHydradxHandler :: "ChainService \<Rightarrow> BalanceService \<Rightarrow> bool \<Rightarrow> HydradxHandler" where
  "newHydradxHandler chainService' balanceService' isTestnet' =
     \<lparr> swapBaseHandler =
         \<lparr> providerSlug = (if isTestnet' then ''HYDRADX_TESTNET'' else ''HYDRADX_MAINNET''),
           providerName = (if isTestnet' then ''HydraDX Testnet'' else ''HydraDX''),
           chainService = chainService',
           balanceService = balanceService' \<rparr>,
       tradeRouter = None,
       isTestnet = isTestnet',
       isReady = False \<rparr>"

definition chain :: "Imports \<Rightarrow> HydradxHandler \<Rightarrow> string" where
  "chain imp this = (if \<not> isTestnet this then HYDRADX imp else HYDRADX_TESTNET imp)"

definition providerInfo :: "SwapBaseHandler \<Rightarrow> SwapProvider" where
  "providerInfo this = \<lparr> provider_id = providerSlug this, provider_name = providerName this \<rparr>"

text \<open>
  \<open>getXcmStep\<close> and \<open>getSubmitStep\<close> are handed to the base handler unbound and are
  bound there to the base handler, whose \<open>chainService\<close> and \<open>balanceService\<close>
  are the ones the getters of \<open>HydradxHandler\<close> return; \<open>this\<close> is the base handler.
\<close>

definition getXcmStep ::
  "Imports \<Rightarrow> SwapBaseHandler \<Rightarrow> OptimalSwapPathParams \<Rightarrow> exn + (BaseStepDetail \<times> SwapFeeInfo) option"
where
  "getXcmStep imp this params =
     (let bnAmount = req_fromAmount (request params) in
      bindE (deref (getAssetBySlug (chainService this) (pair_from (req_pair (request params))))) (\<lambda>fromAsset.
      bindE (getTokenFreeBalance (balanceService this) (req_address (request params))
               (originChain fromAsset) (slug fromAsset)) (\<lambda>bnFromAssetBalance.
      if \<not> (bnFromAssetBalance \<ge> bnAmount) then
        (case getSwapAlternativeAsset imp (req_pair (request params)) of
           None \<Rightarrow> Inr None
         | Some alternativeAssetSlug \<Rightarrow>
             bindE (deref (getAssetBySlug (chainService this) alternativeAssetSlug)) (\<lambda>alternativeAsset.
             bindE (getTokenFreeBalance (balanceService this) (req_address (request params))
                      (originChain alternativeAsset) (slug alternativeAsset)) (\<lambda>bnAlternativeAssetBalance.
             if bnAlternativeAssetBalance > 0 then
               bindE (deref (getChainInfoByKey (chainService this) (originChain alternativeAsset)))
                 (\<lambda>alternativeChainInfo.
               let step = \<lparr> metadata = Some (XcmMetadata bnAmount alternativeAsset fromAsset),
                            step_name = ''Transfer '' @ symbol alternativeAsset @ '' from ''
                                          @ chain_name alternativeChainInfo,
                            step_type = XCM \<rparr>
               in
               bindE (xcmPaymentInfo imp alternativeAsset fromAsset bnAmount
                        (req_address (request params))) (\<lambda>partialFee.
               bindE (getChainNativeTokenSlug imp (Some alternativeChainInfo)) (\<lambda>tokenSlug1.
               bindE (getChainNativeTokenSlug imp (Some alternativeChainInfo)) (\<lambda>tokenSlug2.
               bindE (getChainNativeTokenSlug imp (Some alternativeChainInfo)) (\<lambda>tokenSlug3.
               let fee = \<lparr> feeComponent =
                             [\<lparr> feeType = NETWORK_FEE,
                                amount = Some (inflateFee imp partialFee),
                                tokenSlug = tokenSlug1 \<rparr>],
                           defaultFeeToken = tokenSlug2,
                           feeOptions = [tokenSlug3] \<rparr>
               in Inr (Some (step, fee)))))))
             else Inr None)))
      else Inr None)))"

definition getSubmitStep ::
  "OptimalSwapPathParams \<Rightarrow> exn + (BaseStepDetail \<times> SwapFeeInfo) option"
where
  "getSubmitStep params =
     (case selectedQuote params of
        Some selectedQuote' \<Rightarrow>
          let submitStep = \<lparr> metadata = None, step_name = ''Swap'', step_type = SWAP \<rparr>
          in Inr (Some (submitStep, feeInfo selectedQuote'))
      | None \<Rightarrow> Inr None)"

text \<open>
  The two generators only read the collaborators, which are fixed here, so as functions
  on a world state they hand the state back as it was.
\<close>

definition readOnly ::
  "(OptimalSwapPathParams \<Rightarrow> exn + (BaseStepDetail \<times> SwapFeeInfo) option) \<Rightarrow> 's GenSwapStepFunc"
where
  "readOnly f params s = (f params, s)"

definition Hydradx_generateOptimalProcess ::
  "Imports \<Rightarrow> HydradxHandler \<Rightarrow> OptimalSwapPathParams \<Rightarrow> OptimalSwapPath"
where
  "Hydradx_generateOptimalProcess imp this params =
     fst (generateOptimalProcess imp params
            [readOnly (getXcmStep imp (swapBaseHandler this)), readOnly getSubmitStep] ())"

definition validateSwapRequest ::
  "Imports \<Rightarrow> HydradxHandler \<Rightarrow> SwapRequest \<Rightarrow> exn + SwapEarlyValidation"
where
  "validateSwapRequest imp this request' =
     (let cs = chainService (swapBaseHandler this);
          fromAsset = getAssetBySlug cs (pair_from (req_pair request'));
          toAsset = getAssetBySlug cs (pair_to (req_pair request'))
      in
      bindE (getTokenOnChainAssetId imp fromAsset) (\<lambda>fromAssetId.
      bindE (getTokenOnChainAssetId imp toAsset) (\<lambda>toAssetId.
      bindE (deref fromAsset) (\<lambda>fromAsset.
      if originChain fromAsset \<noteq> chain imp this then
        Inr \<lparr> error = Some ASSET_NOT_SUPPORTED, ev_metadata = None \<rparr>
      else
      bindE (deref toAsset) (\<lambda>toAsset.
      if originChain toAsset \<noteq> chain imp this then
        Inr \<lparr> error = Some ASSET_NOT_SUPPORTED, ev_metadata = None \<rparr>
      else if fromAssetId = [] \<or> toAssetId = [] then
        Inr \<lparr> error = Some UNKNOWN, ev_metadata = None \<rparr>
      else
        (case getTokenFreeBalance (balanceService (swapBaseHandler this)) (req_address request')
                (originChain fromAsset) (slug fromAsset) of
           Inl e \<Rightarrow> Inr \<lparr> error = Some UNKNOWN, ev_metadata = None \<rparr>
         | Inr fromAssetBalance \<Rightarrow>
             let bnAmount = req_fromAmount request';
                 bnSrcAssetMinAmount = getTokenMinAmount fromAsset;
                 bnMaxBalanceSwap = fromAssetBalance - bnSrcAssetMinAmount
             in
             if bnAmount \<le> 0 then
               Inr \<lparr> error = Some AMOUNT_CANNOT_BE_ZERO, ev_metadata = None \<rparr>
             else if bnAmount \<ge> bnMaxBalanceSwap then
               Inr \<lparr> error = Some SWAP_EXCEED_ALLOWANCE, ev_metadata = None \<rparr>
             else
               Inr \<lparr> error = None,
                     ev_metadata = Some
                       \<lparr> md_chain = getChainInfoByKey cs (chain imp this),
                         maxSwap = \<lparr> amount_value = bnMaxBalanceSwap,
                                     amount_decimals = getAssetDecimals fromAsset,
                                     amount_symbol = symbol fromAsset \<rparr> \<rparr> \<rparr>))))))"

definition getSwapQuote ::
  "Imports \<Rightarrow> HydradxHandler \<Rightarrow> SwapRequest \<Rightarrow> exn + (SwapError + SwapQuote)"
where
  "getSwapQuote imp this request' =
     (let cs = chainService (swapBaseHandler this) in
      bindE (deref (getAssetBySlug cs (pair_from (req_pair request')))) (\<lambda>fromAsset.
      let toAsset = getAssetBySlug cs (pair_to (req_pair request'));
          fromChain = getChainInfoByKey cs (originChain fromAsset)
      in
      bindE (getChainNativeTokenSlug imp fromChain) (\<lambda>fromChainNativeTokenSlug.
      if \<not> isReady this \<or> tradeRouter this = None then
        Inr (Inl (SwapError UNKNOWN None))
      else
      bindE (validateSwapRequest imp this request') (\<lambda>earlyValidation.
      case error earlyValidation of
        Some err \<Rightarrow> Inr (Inl (getEarlyHydradxValidationError imp err (ev_metadata earlyValidation)))
      | None \<Rightarrow>
          let defaultFeeToken' =
                (if isNativeToken imp fromAsset then slug fromAsset else fromChainNativeTokenSlug);
              toAmount = 100000000000
          in
          (case calculateSwapRate imp (req_fromAmount request') toAmount fromAsset toAsset of
             Inl e \<Rightarrow> Inr (Inl (SwapError ERROR_FETCHING_QUOTE None))
           | Inr rate' \<Rightarrow>
               Inr (Inr \<lparr> quote_pair = req_pair request',
                          quote_fromAmount = req_fromAmount request',
                          quote_toAmount = toAmount,
                          rate = rate',
                          provider = providerInfo (swapBaseHandler this),
                          aliveUntil = now imp +
                            (case SWAP_QUOTE_TIMEOUT_MAP imp (providerSlug (swapBaseHandler this)) of
                               None \<Rightarrow> SWAP_QUOTE_TIMEOUT_default imp
                             | Some timeout \<Rightarrow>
                                 if timeout = 0 then SWAP_QUOTE_TIMEOUT_default imp else timeout),
                          minSwap = None,
                          feeInfo = \<lparr> feeComponent = [],
                                      defaultFeeToken = defaultFeeToken',
                                      feeOptions = [defaultFeeToken'] \<rparr>,
                          route_path = [] \<rparr>))))))"

section \<open>Reading results\<close>

text \<open>A validation result reports an error kind: it returned, and the kind is among its errors.\<close>

definition reports :: "TxErrorType \<Rightarrow> exn + TransactionError list \<Rightarrow> bool" where
  "reports kind res = (case res of Inl e \<Rightarrow> False | Inr errors \<Rightarrow> kind \<in> set (map errorType errors))"

section \<open>A concrete environment\<close>

text \<open>
  The setting of the examples: DOT is swapped for USDT on HydraDX, DOT on Polkadot is the
  alternative asset of the pair, no asset has a minimum amount and amounts are shown
  with zero decimals. The balances, the clock and the fee are chosen per example. The fee
  query answers 8333, and \<open>Math.round(8333 * 1.2)\<close> is 10000, which is what the
  stand-in for \<open>inflateFee\<close> gives there.
\<close>

definition exFromAsset :: ChainAsset where
  "exFromAsset = \<lparr> slug = ''hydradx-DOT'', originChain = ''hydradx'', symbol = ''DOT'',
                   decimals = Some 0, minAmount = Some 0 \<rparr>"

definition exAltAsset :: ChainAsset where
  "exAltAsset = \<lparr> slug = ''polkadot-DOT'', originChain = ''polkadot'', symbol = ''DOT'',
                  decimals = Some 0, minAmount = Some 0 \<rparr>"

definition exToAsset :: ChainAsset where
  "exToAsset = \<lparr> slug = ''hydradx-USDT'', originChain = ''hydradx'', symbol = ''USDT'',
                 decimals = Some 0, minAmount = Some 0 \<rparr>"

definition exChainService :: ChainService where
  "exChainService =
     \<lparr> getAssetBySlug = (\<lambda>s. if s = ''hydradx-DOT'' then Some exFromAsset
                             else if s = ''polkadot-DOT'' then Some exAltAsset
                             else if s = ''hydradx-USDT'' then Some exToAsset
                             else None),
       getChainInfoByKey = (\<lambda>k. if k = ''hydradx'' then Some \<lparr> chain_slug = ''hydradx'', chain_name = ''HydraDX'' \<rparr>
                                else if k = ''polkadot'' then Some \<lparr> chain_slug = ''polkadot'', chain_name = ''Polkadot'' \<rparr>
                                else None) \<rparr>"

definition exBalanceService :: "int \<Rightarrow> int \<Rightarrow> BalanceService" where
  "exBalanceService fromBalance altBalance =
     \<lparr> getTokenFreeBalance = (\<lambda>addr chain' slug'.
         if slug' = ''hydradx-DOT'' then Inr fromBalance
         else if slug' = ''polkadot-DOT'' then Inr altBalance
         else Inl (Rejected ''no balance'')) \<rparr>"

definition exBaseHandler :: "int \<Rightarrow> int \<Rightarrow> SwapBaseHandler" where
  "exBaseHandler fromBalance altBalance =
     \<lparr> providerSlug = ''HYDRADX_TESTNET'', providerName = ''HydraDX Testnet'',
       chainService = exChainService,
       balanceService = exBalanceService fromBalance altBalance \<rparr>"

text \<open>A stand-in for \<open>formatNumber\<close>: the whole part of \<open>v / 10 ^ d\<close> in decimal digits.\<close>

function showNat :: "nat \<Rightarrow> string" where
  "showNat n = (if n < 10 then [char_of (48 + n)] else showNat (n div 10) @ [char_of (48 + n mod 10)])"
  by pat_completeness auto
termination
  by (relation "measure (\<lambda>n. n)") auto

definition exFormatNumber :: "int \<Rightarrow> nat \<Rightarrow> string" where
  "exFormatNumber v d = (if v < 0 then ''-'' @ showNat (nat (- v) div 10 ^ d) else showNat (nat v div 10 ^ d))"

definition exPair :: SwapPair where
  "exPair = \<lparr> pair_slug = ''hydradx-DOT___hydradx-USDT'', pair_from = ''hydradx-DOT'', pair_to = ''hydradx-USDT'' \<rparr>"

definition exImports :: Imports where
  "exImports =
     \<lparr> DEFAULT_SWAP_FIRST_STEP =
         \<lparr> metadata = None, step_name = ''Fill information'', step_type = DEFAULT, step_id = 0 \<rparr>,
       MOCK_SWAP_FEE = \<lparr> feeComponent = [], defaultFeeToken = [], feeOptions = [] \<rparr>,
       getSwapAlternativeAsset = (\<lambda>pair. if pair_from pair = ''hydradx-DOT'' then Some ''polkadot-DOT'' else None),
       SWAP_QUOTE_TIMEOUT_MAP = (\<lambda>k. None),
       SWAP_QUOTE_TIMEOUT_default = 30000,
       calculateSwapRate = (\<lambda>fromAmount toAmount fromAsset toAsset. Inr (Fract toAmount fromAmount)),
       getEarlyHydradxValidationError = (\<lambda>err md. SwapError err None),
       formatNumber = exFormatNumber,
       isEthereumAddress = (\<lambda>a. take 2 a = ''0x''),
       isChainEvmCompatible = (\<lambda>c. case c of None \<Rightarrow> Inl TypeError | Some ci \<Rightarrow> Inr False),
       getChainNativeTokenSlug =
         (\<lambda>c. case c of None \<Rightarrow> Inl TypeError | Some ci \<Rightarrow> Inr (chain_slug ci @ ''-NATIVE'')),
       getTokenOnChainAssetId = (\<lambda>a. case a of None \<Rightarrow> Inl TypeError | Some ai \<Rightarrow> Inr (slug ai)),
       isNativeToken = (\<lambda>a. False),
       HYDRADX = ''hydradx_main'',
       HYDRADX_TESTNET = ''hydradx'',
       xcmPaymentInfo = (\<lambda>origin dest v recipient'. Inr 8333),
       inflateFee = (\<lambda>partialFee. (partialFee * 12 + 5) div 10),
       now = 1000 \<rparr>"

definition exFee :: "int \<Rightarrow> SwapFeeInfo" where
  "exFee a = \<lparr> feeComponent = [\<lparr> feeType = NETWORK_FEE, amount = Some a, tokenSlug = ''polkadot-NATIVE'' \<rparr>],
               defaultFeeToken = ''polkadot-NATIVE'', feeOptions = [''polkadot-NATIVE''] \<rparr>"

definition exQuote :: "int \<Rightarrow> int \<Rightarrow> SwapQuote" where
  "exQuote fromAmount' aliveUntil' =
     \<lparr> quote_pair = exPair, quote_fromAmount = fromAmount', quote_toAmount = 100000000000,
       rate = 1, provider = \<lparr> provider_id = ''HYDRADX_TESTNET'', provider_name = ''HydraDX Testnet'' \<rparr>,
       aliveUntil = aliveUntil', minSwap = None,
       feeInfo = \<lparr> feeComponent = [], defaultFeeToken = ''hydradx-NATIVE'', feeOptions = [''hydradx-NATIVE''] \<rparr>,
       route_path = [] \<rparr>"

definition exXcmStep :: "int \<Rightarrow> CommonStepDetail" where
  "exXcmStep v = \<lparr> metadata = Some (XcmMetadata v exAltAsset exFromAsset),
                    step_name = ''Transfer DOT from Polkadot'', step_type = XCM, step_id = 1 \<rparr>"

definition exSwapStep :: CommonStepDetail where
  "exSwapStep = \<lparr> metadata = None, step_name = ''Swap'', step_type = SWAP, step_id = 2 \<rparr>"

definition exProcess :: "int \<Rightarrow> int \<Rightarrow> OptimalSwapPath" where
  "exProcess fromAmount' aliveUntil' =
     \<lparr> totalFee = [MOCK_SWAP_FEE exImports, exFee 10000, feeInfo (exQuote fromAmount' aliveUntil')],
       steps = [DEFAULT_SWAP_FIRST_STEP exImports, exXcmStep fromAmount', exSwapStep] \<rparr>"

definition exValidateParams :: "int \<Rightarrow> int \<Rightarrow> ValidateSwapProcessParams" where
  "exValidateParams fromAmount' aliveUntil' =
     \<lparr> address = ''5Alice'', process = exProcess fromAmount' aliveUntil',
       vp_selectedQuote = Some (exQuote fromAmount' aliveUntil'), recipient = None \<rparr>"

definition exPathParams :: "int \<Rightarrow> OptimalSwapPathParams" where
  "exPathParams fromAmount' =
     \<lparr> request = \<lparr> req_address = ''5Alice'', req_pair = exPair, req_fromAmount = fromAmount' \<rparr>,
       selectedQuote = Some (exQuote fromAmount' 2000) \<rparr>"

text \<open>
  Generators on a world state that counts the calls made to the outside: one that yields
  the transfer step, one that throws, one that yields the swap step.
\<close>

definition exGenOk :: "nat GenSwapStepFunc" where
  "exGenOk params n =
     (Inr (Some (\<lparr> metadata = None, step_name = ''Transfer DOT from Polkadot'', step_type = XCM \<rparr>,
                 exFee 10000)), Suc n)"

definition exGenFail :: "nat GenSwapStepFunc" where
  "exGenFail params n = (Inl (Rejected ''disconnected''), Suc n)"

definition exGenSubmit :: "nat GenSwapStepFunc" where
  "exGenSubmit params n = (getSubmitStep params, Suc n)"

section \<open>Basic facts\<close>

lemma bindE_simps:
  "bindE (Inl e) f = Inl e" "bindE (Inr v) f = f v"
  by (simp_all add: bindE_def)

lemma deref_simps:
  "deref None = Inl TypeError" "deref (Some v) = Inr v"
  by (simp_all add: deref_def)

lemma bindE_Inr_iff:
  "bindE m f = Inr r \<longleftrightarrow> (\<exists>v. m = Inr v \<and> f v = Inr r)"
  by (cases m) (simp_all add: bindE_def)

lemma deref_Inr_iff: "deref x = Inr v \<longleftrightarrow> x = Some v"
  by (cases x) (simp_all add: deref_def)

lemmas run_simps = bindE_simps deref_simps orElse_def at_index_def Let_def

lemmas ex_defs = exValidateParams_def exImports_def exQuote_def exPair_def exBaseHandler_def
  exChainService_def exBalanceService_def exFromAsset_def exAltAsset_def exToAsset_def
  exProcess_def exFee_def exPathParams_def exXcmStep_def exSwapStep_def

section \<open>Path generation\<close>

text \<open>
  The loop only ever appends: the path it returns is the path it started from, followed
  by as many steps as fees, and the ids of the appended steps count up from the length
  the path had.
\<close>

lemma genSteps_extends:
  "\<exists>xs fs. steps (fst (genSteps params gens result s)) = steps result @ xs
     \<and> totalFee (fst (genSteps params gens result s)) = totalFee result @ fs
     \<and> length xs = length fs
     \<and> map step_id xs = [length (steps result) ..< length (steps result) + length xs]"
proof (induction gens arbitrary: result s)
  case Nil
  show ?case by simp
next
  case (Cons g gens)
  obtain out s' where g: "g params s = (out, s')" by (cases "g params s")
  show ?case
  proof (cases out)
    case (Inl e)
    with g show ?thesis by simp
  next
    case (Inr r)
    show ?thesis
    proof (cases r)
      case None
      with g Inr Cons.IH [of result s'] show ?thesis by simp
    next
      case (Some sf)
      obtain step fee where sf: "sf = (step, fee)" by (cases sf)
      let ?new = "\<lparr> metadata = metadata step, step_name = step_name step,
                     step_type = step_type step, step_id = length (steps result) \<rparr>"
      let ?result' = "\<lparr> totalFee = totalFee result @ [fee], steps = steps result @ [?new] \<rparr>"
      from Cons.IH [of ?result' s'] obtain xs fs where
        st: "steps (fst (genSteps params gens ?result' s')) = (steps result @ [?new]) @ xs" and
        tf: "totalFee (fst (genSteps params gens ?result' s')) = (totalFee result @ [fee]) @ fs" and
        len: "length xs = length fs" and
        ids: "map step_id xs = [Suc (length (steps result)) ..< Suc (length (steps result)) + length xs]"
        by auto
      have run: "genSteps params (g # gens) result s = genSteps params gens ?result' s'"
        using g Inr Some sf by simp
      have "[length (steps result) ..< length (steps result) + length (?new # xs)] =
              length (steps result) # [Suc (length (steps result)) ..< Suc (length (steps result)) + length xs]"
        by (simp add: upt_conv_Cons del: upt_Suc)
      then have "map step_id (?new # xs) =
              [length (steps result) ..< length (steps result) + length (?new # xs)]"
        using ids by (simp del: upt_Suc)
      with st tf len run show ?thesis
        by (intro exI [of _ "?new # xs"] exI [of _ "fee # fs"]) simp
    qed
  qed
qed

lemma genSteps_append_failure:
  assumes "noFailure params pre s"
    and "genSteps params pre result s = (r1, s1)"
    and "fst (g params s1) = Inl e"
  shows "genSteps params (pre @ g # post) result s = (r1, snd (g params s1))"
  using assms
proof (induction pre arbitrary: result s)
  case Nil
  then show ?case by (cases "g params s1") auto
next
  case (Cons h pre)
  obtain out s' where h: "h params s = (out, s')" by (cases "h params s")
  with Cons.prems(1) obtain r where out: "out = Inr r" by (cases out) auto
  show ?case
  proof (cases r)
    case None
    with h out Cons.prems Cons.IH [of s' result] show ?thesis by simp
  next
    case (Some sf)
    obtain step fee where sf: "sf = (step, fee)" by (cases sf)
    with h out Some Cons.prems show ?thesis
      by (simp add: Cons.IH)
  qed
qed

text \<open>
  C1. For every list of step generators and every params value, the path returned by
  \<open>generateOptimalProcess\<close> starts with the fixed default step and the fixed placeholder
  fee, its \<open>steps\<close> and \<open>totalFee\<close> have the same length, and every step after the first
  carries its position in \<open>steps\<close> as id (1, 2, ...), whichever generators yield a
  step, yield none, or throw.
\<close>

theorem generateOptimalProcess_seed_aligned_ids:
  "steps (fst (generateOptimalProcess imp params gens s)) \<noteq> []
   \<and> hd (steps (fst (generateOptimalProcess imp params gens s))) = DEFAULT_SWAP_FIRST_STEP imp
   \<and> totalFee (fst (generateOptimalProcess imp params gens s)) \<noteq> []
   \<and> hd (totalFee (fst (generateOptimalProcess imp params gens s))) = MOCK_SWAP_FEE imp
   \<and> length (steps (fst (generateOptimalProcess imp params gens s)))
       = length (totalFee (fst (generateOptimalProcess imp params gens s)))
   \<and> map step_id (tl (steps (fst (generateOptimalProcess imp params gens s))))
       = [1 ..< length (steps (fst (generateOptimalProcess imp params gens s)))]"
proof -
  let ?seed = "\<lparr> totalFee = [MOCK_SWAP_FEE imp], steps = [DEFAULT_SWAP_FIRST_STEP imp] \<rparr>"
  from genSteps_extends [of params gens ?seed s] obtain xs fs where
    "steps (fst (genSteps params gens ?seed s)) = steps ?seed @ xs"
    "totalFee (fst (genSteps params gens ?seed s)) = totalFee ?seed @ fs"
    "length xs = length fs"
    "map step_id xs = [length (steps ?seed) ..< length (steps ?seed) + length xs]"
    by blast
  then show ?thesis
    by (simp add: generateOptimalProcess_def)
qed


text \<open>
  C2. When a generator throws, \<open>generateOptimalProcess\<close> returns the path accumulated
  by the generators before it: with \<open>pre\<close> the generators that ran without throwing,
  \<open>r1\<close> the path and \<open>s1\<close> the world they leave, and \<open>g\<close> throwing in \<open>s1\<close>, the
  call on \<open>pre @ g # post\<close> returns exactly \<open>r1\<close>, which still starts with the fixed
  seed entries. The world it leaves is the one \<open>g\<close> left: whatever the later generators
  \<open>post\<close> are, none of them has been invoked.
\<close>

theorem generateOptimalProcess_failure_keeps_prefix:
  assumes "noFailure params pre s"
    and "generateOptimalProcess imp params pre s = (r1, s1)"
    and "fst (g params s1) = Inl e"
  shows "generateOptimalProcess imp params (pre @ g # post) s = (r1, snd (g params s1))
       \<and> steps r1 \<noteq> [] \<and> hd (steps r1) = DEFAULT_SWAP_FIRST_STEP imp
       \<and> totalFee r1 \<noteq> [] \<and> hd (totalFee r1) = MOCK_SWAP_FEE imp"
proof -
  let ?seed = "\<lparr> totalFee = [MOCK_SWAP_FEE imp], steps = [DEFAULT_SWAP_FIRST_STEP imp] \<rparr>"
  from assms(2) have run: "genSteps params pre ?seed s = (r1, s1)"
    by (simp add: generateOptimalProcess_def)
  from genSteps_append_failure [where g = g and post = post, OF assms(1) run assms(3)]
  have "generateOptimalProcess imp params (pre @ g # post) s = (r1, snd (g params s1))"
    by (simp add: generateOptimalProcess_def)
  moreover from genSteps_extends [of params pre ?seed s] run
  have "steps r1 \<noteq> [] \<and> hd (steps r1) = DEFAULT_SWAP_FIRST_STEP imp
       \<and> totalFee r1 \<noteq> [] \<and> hd (totalFee r1) = MOCK_SWAP_FEE imp"
    by auto
  ultimately show ?thesis by simp
qed

text \<open>
  An instance over a world that counts the calls: the first generator yields the transfer
  step, the second throws, the third would yield the swap step. The path holds the seed
  and the transfer step, and two calls were made, not three.
\<close>

theorem generateOptimalProcess_failure_keeps_prefix_witness:
  "noFailure (exPathParams 1500000) [exGenOk] (0::nat)
   \<and> generateOptimalProcess exImports (exPathParams 1500000) [exGenOk] 0
       = (\<lparr> totalFee = [MOCK_SWAP_FEE exImports, exFee 10000],
            steps = [DEFAULT_SWAP_FIRST_STEP exImports,
                     \<lparr> metadata = None, step_name = ''Transfer DOT from Polkadot'',
                       step_type = XCM, step_id = 1 \<rparr>] \<rparr>, 1)
   \<and> fst (exGenFail (exPathParams 1500000) 1) = Inl (Rejected ''disconnected'')
   \<and> generateOptimalProcess exImports (exPathParams 1500000) ([exGenOk] @ exGenFail # [exGenSubmit]) 0
       = (\<lparr> totalFee = [MOCK_SWAP_FEE exImports, exFee 10000],
            steps = [DEFAULT_SWAP_FIRST_STEP exImports,
                     \<lparr> metadata = None, step_name = ''Transfer DOT from Polkadot'',
                       step_type = XCM, step_id = 1 \<rparr>] \<rparr>, 2)"
proof -
  have a: "noFailure (exPathParams 1500000) [exGenOk] (0::nat)"
    by (simp add: exGenOk_def)
  have b: "generateOptimalProcess exImports (exPathParams 1500000) [exGenOk] 0
       = (\<lparr> totalFee = [MOCK_SWAP_FEE exImports, exFee 10000],
            steps = [DEFAULT_SWAP_FIRST_STEP exImports,
                     \<lparr> metadata = None, step_name = ''Transfer DOT from Polkadot'',
                       step_type = XCM, step_id = 1 \<rparr>] \<rparr>, 1)"
    by (simp add: generateOptimalProcess_def exGenOk_def)
  have c: "fst (exGenFail (exPathParams 1500000) 1) = Inl (Rejected ''disconnected'')"
    by (simp add: exGenFail_def)
  from generateOptimalProcess_failure_keeps_prefix
         [where g = exGenFail and post = "[exGenSubmit]", OF a b c] a b c
  show ?thesis by (simp add: exGenFail_def)
qed

section \<open>Validation of the swap step\<close>

text \<open>
  C3. With a selected quote, \<open>validateSwapStep\<close> returns the single error
  \<open>QUOTE_TIMEOUT\<close> whenever the clock is at or past the quote's \<open>aliveUntil\<close>. The
  handler \<open>this\<close>, and with it the balance service, is arbitrary: the answer is given
  before any balance is asked for, so it is the same for every balance, sufficient or not,
  and for a balance service that rejects.
\<close>

theorem validateSwapStep_quote_timeout:
  assumes "vp_selectedQuote params = Some q" and "aliveUntil q \<le> now imp"
  shows "validateSwapStep imp this params isXcmOk = Inr [TransactionError (SwapTx QUOTE_TIMEOUT) None]"
  using assms by (simp add: validateSwapStep_def)

text \<open>An instance: the quote expires at 1000, the clock reads 1000, no balance can be fetched.\<close>

theorem validateSwapStep_quote_timeout_witness:
  "vp_selectedQuote (exValidateParams 100 1000) = Some (exQuote 100 1000)
   \<and> aliveUntil (exQuote 100 1000) \<le> now exImports
   \<and> validateSwapStep exImports
        ((exBaseHandler 1000000 0)
           \<lparr> balanceService := \<lparr> getTokenFreeBalance = (\<lambda>a c t. Inl (Rejected ''offline'')) \<rparr> \<rparr>)
        (exValidateParams 100 1000) True
       = Inr [TransactionError (SwapTx QUOTE_TIMEOUT) None]"
proof -
  have a: "vp_selectedQuote (exValidateParams 100 1000) = Some (exQuote 100 1000)"
    by (simp add: exValidateParams_def)
  have b: "aliveUntil (exQuote 100 1000) \<le> now exImports"
    by (simp add: exQuote_def exImports_def)
  from validateSwapStep_quote_timeout [OF a b] a b show ?thesis by simp
qed

text \<open>
  C6. For a quote that is still alive, with the source asset and its balance at hand and
  the minimum-swap check passed (no \<open>minSwap\<close>, or a balance above it),
  \<open>validateSwapStep\<close> reports \<open>SWAP_EXCEED_ALLOWANCE\<close> exactly when the requested
  amount is at or above the balance minus the source asset's minimum amount, and then
  that error is the whole result. The result is a function of the amount and the balance
  alone: raising the amount to the threshold gives the error, lowering it below the
  threshold removes it.
\<close>

theorem validateSwapStep_exceed_allowance_iff:
  assumes "vp_selectedQuote params = Some q"
    and "now imp < aliveUntil q"
    and "getAssetBySlug (chainService this) (pair_from (quote_pair q)) = Some fromAsset"
    and "getTokenFreeBalance (balanceService this) (address params)
           (originChain fromAsset) (slug fromAsset) = Inr bal"
    and "case minSwap q of None \<Rightarrow> True | Some minProtocolSwap \<Rightarrow> minProtocolSwap < bal"
  shows "(reports (SwapTx SWAP_EXCEED_ALLOWANCE) (validateSwapStep imp this params isXcmOk)
            \<longleftrightarrow> quote_fromAmount q \<ge> bal - getTokenMinAmount fromAsset)
       \<and> (quote_fromAmount q \<ge> bal - getTokenMinAmount fromAsset \<longrightarrow>
            validateSwapStep imp this params isXcmOk =
              Inr [TransactionError (SwapTx SWAP_EXCEED_ALLOWANCE)
                     (Some (AmountTooHighMessage
                              (formatNumber imp (bal - getTokenMinAmount fromAsset) (getAssetDecimals fromAsset))
                              (symbol fromAsset)))])"
proof -
  have ms: "(case minSwap q of
             None \<Rightarrow> None
           | Some minProtocolSwap \<Rightarrow>
               if bal \<le> minProtocolSwap then
                 let parsedMinSwapValue = formatNumber imp minProtocolSwap (getAssetDecimals fromAsset)
                 in Some [TransactionError (SwapTx SWAP_NOT_ENOUGH_BALANCE)
                            (Some (InsufficientBalanceMessage parsedMinSwapValue (symbol fromAsset)))]
               else None) = None"
    using assms(5) by (cases "minSwap q") auto
  have iff: "reports (SwapTx SWAP_EXCEED_ALLOWANCE) (validateSwapStep imp this params isXcmOk)
           \<longleftrightarrow> quote_fromAmount q \<ge> bal - getTokenMinAmount fromAsset"
    using assms(1-4)
    by (auto simp: validateSwapStep_def bindE_simps deref_simps ms reports_def bindE_def deref_def Let_def
             split: option.splits sum.splits)
  have exact: "quote_fromAmount q \<ge> bal - getTokenMinAmount fromAsset \<longrightarrow>
           validateSwapStep imp this params isXcmOk =
             Inr [TransactionError (SwapTx SWAP_EXCEED_ALLOWANCE)
                    (Some (AmountTooHighMessage
                             (formatNumber imp (bal - getTokenMinAmount fromAsset) (getAssetDecimals fromAsset))
                             (symbol fromAsset)))]"
    using assms(1-4) by (simp add: validateSwapStep_def bindE_simps deref_simps Let_def ms)
  from iff exact show ?thesis by blast
qed

text \<open>
  An instance at the threshold: balance 1000000, minimum amount 0, quote alive. The amount
  1000000 is reported, the amount 999999 is not, and the validation of 999999 is clean.
\<close>

theorem validateSwapStep_exceed_allowance_iff_witness:
  "now exImports < aliveUntil (exQuote 1000000 2000)
   \<and> reports (SwapTx SWAP_EXCEED_ALLOWANCE)
        (validateSwapStep exImports (exBaseHandler 1000000 0) (exValidateParams 1000000 2000) True)
   \<and> \<not> reports (SwapTx SWAP_EXCEED_ALLOWANCE)
        (validateSwapStep exImports (exBaseHandler 1000000 0) (exValidateParams 999999 2000) True)
   \<and> validateSwapStep exImports (exBaseHandler 1000000 0) (exValidateParams 999999 2000) True = Inr []"
proof -
  have a: "vp_selectedQuote (exValidateParams x 2000) = Some (exQuote x 2000)" for x
    by (simp add: exValidateParams_def)
  have b: "now exImports < aliveUntil (exQuote x 2000)" for x
    by (simp add: exQuote_def exImports_def)
  have c: "getAssetBySlug (chainService (exBaseHandler 1000000 0)) (pair_from (quote_pair (exQuote x 2000)))
             = Some exFromAsset" for x
    by (simp add: ex_defs)
  have d: "getTokenFreeBalance (balanceService (exBaseHandler 1000000 0)) (address (exValidateParams x 2000))
             (originChain exFromAsset) (slug exFromAsset) = Inr 1000000" for x
    by (simp add: ex_defs)
  have e: "case minSwap (exQuote x 2000) of None \<Rightarrow> True | Some m \<Rightarrow> m < 1000000" for x
    by (simp add: exQuote_def)
  have m: "getTokenMinAmount exFromAsset = 0"
    by (simp add: getTokenMinAmount_def exFromAsset_def orElse_def)
  have clean: "validateSwapStep exImports (exBaseHandler 1000000 0) (exValidateParams 999999 2000) True = Inr []"
    by (simp add: validateSwapStep_def ex_defs run_simps getTokenMinAmount_def)
  have r1: "reports (SwapTx SWAP_EXCEED_ALLOWANCE)
        (validateSwapStep exImports (exBaseHandler 1000000 0) (exValidateParams 1000000 2000) True)"
    using validateSwapStep_exceed_allowance_iff
         [where params = "exValidateParams 1000000 2000" and isXcmOk = True, OF a b c d e, THEN conjunct1]
    by (simp add: m exQuote_def)
  have r2: "\<not> reports (SwapTx SWAP_EXCEED_ALLOWANCE)
        (validateSwapStep exImports (exBaseHandler 1000000 0) (exValidateParams 999999 2000) True)"
    using validateSwapStep_exceed_allowance_iff
         [where params = "exValidateParams 999999 2000" and isXcmOk = True, OF a b c d e, THEN conjunct1]
    by (simp add: m exQuote_def)
  from r1 r2 b [of 1000000] clean show ?thesis by blast
qed

section \<open>Validation of the cross-chain top-up step\<close>

text \<open>
  With the quote, the alternative asset, both balances and the fee entry of the step at
  hand, \<open>validateXcmStep\<close> is one comparison: the alternative balance, less the missing
  amount and the fee, against the alternative asset's minimum amount.
\<close>

lemma validateXcmStep_lookups:
  assumes "vp_selectedQuote params = Some q"
    and "getSwapAlternativeAsset imp (quote_pair q) = Some altSlug"
    and "getAssetBySlug (chainService this) altSlug = Some altAsset"
    and "getTokenFreeBalance (balanceService this) (address params) (originChain altAsset) altSlug = Inr altBal"
    and "getAssetBySlug (chainService this) (pair_from (quote_pair q)) = Some fromAsset"
    and "getTokenFreeBalance (balanceService this) (address params)
           (originChain fromAsset) (slug fromAsset) = Inr fromBal"
    and "at_index (totalFee (process params)) i = Some stepFee"
    and "at_index (feeComponent stepFee) 0 = Some c"
  shows "validateXcmStep imp this params i =
     (if orElse (minAmount altAsset) 0 \<le> altBal - (quote_fromAmount q - fromBal + orElse (amount c) 0)
      then Inr []
      else bindE (deref (getChainInfoByKey (chainService this) (originChain fromAsset))) (\<lambda>chain.
           bindE (deref (getChainInfoByKey (chainService this) (originChain altAsset))) (\<lambda>alternativeChain.
           Inr [TransactionError (BasicTx NOT_ENOUGH_BALANCE)
                  (Some (XcmMaxMessage (symbol altAsset)
                     (formatNumber imp (fromBal + altBal - orElse (amount c) 0 - orElse (minAmount altAsset) 0)
                        (orElse (decimals fromAsset) 0))
                     (chain_name chain) (chain_name alternativeChain)
                     (formatNumber imp fromBal (orElse (decimals fromAsset) 0))
                     (formatNumber imp (altBal - orElse (amount c) 0 - orElse (minAmount altAsset) 0)
                        (orElse (decimals fromAsset) 0))))])))"
  using assms by (simp add: validateXcmStep_def bindE_simps deref_simps Let_def)

text \<open>If it returns at all for a pair with an alternative asset, every lookup went through.\<close>

lemma validateXcmStep_returns:
  assumes "vp_selectedQuote params = Some q"
    and "getSwapAlternativeAsset imp (quote_pair q) = Some altSlug"
    and "validateXcmStep imp this params i = Inr errs"
  shows "\<exists>altAsset fromAsset altBal fromBal stepFee c.
      getAssetBySlug (chainService this) altSlug = Some altAsset
    \<and> getTokenFreeBalance (balanceService this) (address params) (originChain altAsset) altSlug = Inr altBal
    \<and> getAssetBySlug (chainService this) (pair_from (quote_pair q)) = Some fromAsset
    \<and> getTokenFreeBalance (balanceService this) (address params)
         (originChain fromAsset) (slug fromAsset) = Inr fromBal
    \<and> at_index (totalFee (process params)) i = Some stepFee
    \<and> at_index (feeComponent stepFee) 0 = Some c"
  using assms
  by (simp add: validateXcmStep_def bindE_simps deref_simps Let_def bindE_Inr_iff deref_Inr_iff) blast

text \<open>
  C4, as amended. Whenever \<open>validateXcmStep\<close> rejects a step (returns a list of errors
  that is not empty) for a pair that has an alternative asset configured, the list is one
  \<open>NOT_ENOUGH_BALANCE\<close> error, and the maximum amount in its message is
  \<open>fromAssetBalance + altAssetBalance - topUpFee - altAssetMinAmount\<close> formatted with the
  decimals of the from-asset. The balances, the fee and the assets are the ones the
  routine looked up.
\<close>

theorem validateXcmStep_rejection_max_amount:
  assumes "vp_selectedQuote params = Some q"
    and "getSwapAlternativeAsset imp (quote_pair q) = Some altSlug"
    and "validateXcmStep imp this params i = Inr errs"
    and "errs \<noteq> []"
  shows "\<exists>altAsset fromAsset altBal fromBal stepFee c msg.
      getAssetBySlug (chainService this) altSlug = Some altAsset
    \<and> getTokenFreeBalance (balanceService this) (address params) (originChain altAsset) altSlug = Inr altBal
    \<and> getAssetBySlug (chainService this) (pair_from (quote_pair q)) = Some fromAsset
    \<and> getTokenFreeBalance (balanceService this) (address params)
         (originChain fromAsset) (slug fromAsset) = Inr fromBal
    \<and> at_index (totalFee (process params)) i = Some stepFee
    \<and> at_index (feeComponent stepFee) 0 = Some c
    \<and> errs = [TransactionError (BasicTx NOT_ENOUGH_BALANCE) (Some msg)]
    \<and> maxValue msg =
        formatNumber imp (fromBal + altBal - orElse (amount c) 0 - orElse (minAmount altAsset) 0)
          (orElse (decimals fromAsset) 0)"
proof -
  from validateXcmStep_returns [OF assms(1,2,3)]
  obtain altAsset fromAsset altBal fromBal stepFee c where
    l: "getAssetBySlug (chainService this) altSlug = Some altAsset"
       "getTokenFreeBalance (balanceService this) (address params) (originChain altAsset) altSlug = Inr altBal"
       "getAssetBySlug (chainService this) (pair_from (quote_pair q)) = Some fromAsset"
       "getTokenFreeBalance (balanceService this) (address params)
          (originChain fromAsset) (slug fromAsset) = Inr fromBal"
       "at_index (totalFee (process params)) i = Some stepFee"
       "at_index (feeComponent stepFee) 0 = Some c"
    by blast
  let ?max = "formatNumber imp (fromBal + altBal - orElse (amount c) 0 - orElse (minAmount altAsset) 0)
                (orElse (decimals fromAsset) 0)"
  from assms(3,4) validateXcmStep_lookups [OF assms(1,2) l]
  have "\<exists>msg. errs = [TransactionError (BasicTx NOT_ENOUGH_BALANCE) (Some msg)] \<and> maxValue msg = ?max"
    by (auto simp: bindE_Inr_iff deref_Inr_iff split: if_splits)
  with l show ?thesis by blast
qed

text \<open>
  The example of the specification: no minimum amount, balance 1000000 of the from-asset,
  400000 of the alternative asset, fee 10000, requested amount 1500000. The step is
  rejected and the maximum is 1390000.
\<close>

theorem validateXcmStep_rejection_max_amount_witness:
  "vp_selectedQuote (exValidateParams 1500000 2000) = Some (exQuote 1500000 2000)
   \<and> getSwapAlternativeAsset exImports (quote_pair (exQuote 1500000 2000)) = Some ''polkadot-DOT''
   \<and> validateXcmStep exImports (exBaseHandler 1000000 400000) (exValidateParams 1500000 2000) 1
       = Inr [TransactionError (BasicTx NOT_ENOUGH_BALANCE)
                (Some (XcmMaxMessage ''DOT'' (formatNumber exImports 1390000 0) ''HydraDX'' ''Polkadot''
                         (formatNumber exImports 1000000 0) (formatNumber exImports 390000 0)))]
   \<and> (\<exists>altAsset fromAsset altBal fromBal stepFee c msg.
        getAssetBySlug (chainService (exBaseHandler 1000000 400000)) ''polkadot-DOT'' = Some altAsset
      \<and> getTokenFreeBalance (balanceService (exBaseHandler 1000000 400000))
           (address (exValidateParams 1500000 2000)) (originChain altAsset) ''polkadot-DOT'' = Inr altBal
      \<and> getAssetBySlug (chainService (exBaseHandler 1000000 400000))
           (pair_from (quote_pair (exQuote 1500000 2000))) = Some fromAsset
      \<and> getTokenFreeBalance (balanceService (exBaseHandler 1000000 400000))
           (address (exValidateParams 1500000 2000)) (originChain fromAsset) (slug fromAsset) = Inr fromBal
      \<and> at_index (totalFee (process (exValidateParams 1500000 2000))) 1 = Some stepFee
      \<and> at_index (feeComponent stepFee) 0 = Some c
      \<and> [TransactionError (BasicTx NOT_ENOUGH_BALANCE)
            (Some (XcmMaxMessage ''DOT'' (formatNumber exImports 1390000 0) ''HydraDX'' ''Polkadot''
                     (formatNumber exImports 1000000 0) (formatNumber exImports 390000 0)))]
          = [TransactionError (BasicTx NOT_ENOUGH_BALANCE) (Some msg)]
      \<and> maxValue msg =
          formatNumber exImports (fromBal + altBal - orElse (amount c) 0 - orElse (minAmount altAsset) 0)
            (orElse (decimals fromAsset) 0))"
proof -
  have a: "vp_selectedQuote (exValidateParams 1500000 2000) = Some (exQuote 1500000 2000)"
    by (simp add: exValidateParams_def)
  have b: "getSwapAlternativeAsset exImports (quote_pair (exQuote 1500000 2000)) = Some ''polkadot-DOT''"
    by (simp add: exImports_def exQuote_def exPair_def)
  have c: "validateXcmStep exImports (exBaseHandler 1000000 400000) (exValidateParams 1500000 2000) 1
       = Inr [TransactionError (BasicTx NOT_ENOUGH_BALANCE)
                (Some (XcmMaxMessage ''DOT'' (formatNumber exImports 1390000 0) ''HydraDX'' ''Polkadot''
                         (formatNumber exImports 1000000 0) (formatNumber exImports 390000 0)))]"
    by (simp add: validateXcmStep_def ex_defs run_simps)
  from validateXcmStep_rejection_max_amount [OF a b c] a b c show ?thesis by blast
qed

text \<open>
  C4 as stated fails where the pair has no alternative asset: the step is rejected, with
  \<open>INTERNAL_ERROR\<close> and no amount, not with \<open>NOT_ENOUGH_BALANCE\<close>.
\<close>

theorem validateXcmStep_internal_error_counterexample:
  "validateXcmStep (exImports \<lparr> getSwapAlternativeAsset := (\<lambda>pair. None) \<rparr>)
      (exBaseHandler 1000000 400000) (exValidateParams 1500000 2000) 1
     = Inr [TransactionError (BasicTx INTERNAL_ERROR) None]"
  by (simp add: validateXcmStep_def ex_defs run_simps)

text \<open>
  C5, as amended. Where the requested amount is at most the balance of the from-asset (the
  shortfall is zero or negative), as on every other input, \<open>validateXcmStep\<close> returns
  no errors exactly when the alternative balance, less the shortfall and the fee of the
  step, is at or above the alternative asset's minimum amount, given that an alternative
  asset is configured and the lookups of the routine go through. The routine has no
  branch of its own for a shortfall that is zero or negative. In particular such a step
  is valid whenever the alternative balance less the fee alone is at or above the minimum
  amount.
\<close>

theorem validateXcmStep_no_shortfall:
  assumes "vp_selectedQuote params = Some q"
    and "getSwapAlternativeAsset imp (quote_pair q) = Some altSlug"
    and "getAssetBySlug (chainService this) altSlug = Some altAsset"
    and "getTokenFreeBalance (balanceService this) (address params) (originChain altAsset) altSlug = Inr altBal"
    and "getAssetBySlug (chainService this) (pair_from (quote_pair q)) = Some fromAsset"
    and "getTokenFreeBalance (balanceService this) (address params)
           (originChain fromAsset) (slug fromAsset) = Inr fromBal"
    and "at_index (totalFee (process params)) i = Some stepFee"
    and "at_index (feeComponent stepFee) 0 = Some c"
  shows "(validateXcmStep imp this params i = Inr []
            \<longleftrightarrow> orElse (minAmount altAsset) 0
                  \<le> altBal - (quote_fromAmount q - fromBal + orElse (amount c) 0))
       \<and> (quote_fromAmount q \<le> fromBal \<and> orElse (minAmount altAsset) 0 \<le> altBal - orElse (amount c) 0
            \<longrightarrow> validateXcmStep imp this params i = Inr [])"
proof -
  have iff: "validateXcmStep imp this params i = Inr []
            \<longleftrightarrow> orElse (minAmount altAsset) 0
                  \<le> altBal - (quote_fromAmount q - fromBal + orElse (amount c) 0)"
    unfolding validateXcmStep_lookups [OF assms]
    by (auto simp: bindE_Inr_iff deref_Inr_iff)
  have "quote_fromAmount q \<le> fromBal \<and> orElse (minAmount altAsset) 0 \<le> altBal - orElse (amount c) 0
          \<longrightarrow> orElse (minAmount altAsset) 0
                  \<le> altBal - (quote_fromAmount q - fromBal + orElse (amount c) 0)"
    by arith
  with iff show ?thesis by blast
qed

text \<open>
  An instance: amount 1000000, balance 2000000, alternative balance 5000, fee 10000. The
  alternative balance does not cover the fee, but the shortfall is -1000000, the check
  \<open>0 \<le> 5000 - (- 1000000 + 10000)\<close> holds and the step is valid.
\<close>

theorem validateXcmStep_no_shortfall_witness:
  "quote_fromAmount (exQuote 1000000 2000) \<le> 2000000
   \<and> orElse (minAmount exAltAsset) 0
        \<le> 5000 - (quote_fromAmount (exQuote 1000000 2000) - 2000000
                    + orElse (amount (hd (feeComponent (exFee 10000)))) 0)
   \<and> validateXcmStep exImports (exBaseHandler 2000000 5000) (exValidateParams 1000000 2000) 1 = Inr []"
proof -
  have a: "vp_selectedQuote (exValidateParams 1000000 2000) = Some (exQuote 1000000 2000)"
    by (simp add: exValidateParams_def)
  have b: "getSwapAlternativeAsset exImports (quote_pair (exQuote 1000000 2000)) = Some ''polkadot-DOT''"
    by (simp add: exImports_def exQuote_def exPair_def)
  have c: "getAssetBySlug (chainService (exBaseHandler 2000000 5000)) ''polkadot-DOT'' = Some exAltAsset"
    by (simp add: ex_defs)
  have d: "getTokenFreeBalance (balanceService (exBaseHandler 2000000 5000))
             (address (exValidateParams 1000000 2000)) (originChain exAltAsset) ''polkadot-DOT'' = Inr 5000"
    by (simp add: ex_defs)
  have e: "getAssetBySlug (chainService (exBaseHandler 2000000 5000))
             (pair_from (quote_pair (exQuote 1000000 2000))) = Some exFromAsset"
    by (simp add: ex_defs)
  have f: "getTokenFreeBalance (balanceService (exBaseHandler 2000000 5000))
             (address (exValidateParams 1000000 2000)) (originChain exFromAsset) (slug exFromAsset) = Inr 2000000"
    by (simp add: ex_defs)
  have g: "at_index (totalFee (process (exValidateParams 1000000 2000))) 1 = Some (exFee 10000)"
    by (simp add: exValidateParams_def exProcess_def at_index_def)
  have h: "at_index (feeComponent (exFee 10000)) 0 = Some (hd (feeComponent (exFee 10000)))"
    by (simp add: exFee_def at_index_def)
  have i: "quote_fromAmount (exQuote 1000000 2000) \<le> 2000000"
    by (simp add: exQuote_def)
  have j: "orElse (minAmount exAltAsset) 0
        \<le> 5000 - (quote_fromAmount (exQuote 1000000 2000) - 2000000
                    + orElse (amount (hd (feeComponent (exFee 10000)))) 0)"
    by (simp add: exAltAsset_def exFee_def exQuote_def orElse_def)
  from validateXcmStep_no_shortfall [OF a b c d e f g h, THEN conjunct1] i j
  show ?thesis by blast
qed

text \<open>
  C5 as stated fails: the amount 1000000 is covered by the balance 1000000 of the
  from-asset, so the shortfall is 0, and yet the step is rejected, because the alternative
  balance 5000 does not cover the fee 10000.
\<close>

theorem validateXcmStep_no_shortfall_counterexample:
  "quote_fromAmount (exQuote 1000000 2000) \<le> 1000000
   \<and> getTokenFreeBalance (balanceService (exBaseHandler 1000000 5000)) ''5Alice'' ''hydradx'' ''hydradx-DOT''
       = Inr 1000000
   \<and> validateXcmStep exImports (exBaseHandler 1000000 5000) (exValidateParams 1000000 2000) 1
       = Inr [TransactionError (BasicTx NOT_ENOUGH_BALANCE)
                (Some (XcmMaxMessage ''DOT'' (formatNumber exImports 995000 0) ''HydraDX'' ''Polkadot''
                         (formatNumber exImports 1000000 0) (formatNumber exImports (- 5000) 0)))]"
  by (simp add: validateXcmStep_def ex_defs run_simps)

section \<open>How many errors a validation returns\<close>

lemma validateSwapStep_at_most_one:
  "validateSwapStep imp this params isXcmOk = Inr errs \<Longrightarrow> length errs \<le> 1"
  by (auto simp: validateSwapStep_def Let_def bindE_Inr_iff deref_Inr_iff
           split: option.splits if_splits)

lemma validateXcmStep_at_most_one:
  "validateXcmStep imp this params i = Inr errs \<Longrightarrow> length errs \<le> 1"
  by (auto simp: validateXcmStep_def Let_def bindE_Inr_iff deref_Inr_iff
           split: option.splits if_splits)

text \<open>
  C9, as amended. Every step-validation routine returns a sequence of errors, and that
  sequence never holds more than one: the checks run in order and the first one that
  fails returns its error alone. \<open>validateSwapStep\<close> and \<open>validateXcmStep\<close> return at
  most one error on every input; \<open>validateTokenApproveStep\<close> and
  \<open>validateSetFeeTokenStep\<close> return none.
\<close>

theorem validation_returns_at_most_one_error:
  "(\<forall>errs. validateSwapStep imp this params isXcmOk = Inr errs \<longrightarrow> length errs \<le> 1)
   \<and> (\<forall>errs. validateXcmStep imp this params i = Inr errs \<longrightarrow> length errs \<le> 1)
   \<and> validateTokenApproveStep this params i = Inr []
   \<and> validateSetFeeTokenStep this params i = Inr []"
proof -
  have "\<forall>errs. validateSwapStep imp this params isXcmOk = Inr errs \<longrightarrow> length errs \<le> 1"
    by (blast intro: validateSwapStep_at_most_one)
  moreover have "\<forall>errs. validateXcmStep imp this params i = Inr errs \<longrightarrow> length errs \<le> 1"
    by (blast intro: validateXcmStep_at_most_one)
  moreover have "validateTokenApproveStep this params i = Inr []"
    by (simp add: validateTokenApproveStep_def)
  moreover have "validateSetFeeTokenStep this params i = Inr []"
    by (simp add: validateSetFeeTokenStep_def)
  ultimately show ?thesis by blast
qed

text \<open>An instance: an amount above the balance, and both routines return one error each.\<close>

theorem validation_returns_at_most_one_error_witness:
  "validateSwapStep exImports (exBaseHandler 1000000 400000) (exValidateParams 1500000 2000) True
     = Inr [TransactionError (SwapTx SWAP_EXCEED_ALLOWANCE)
              (Some (AmountTooHighMessage (formatNumber exImports 1000000 0) ''DOT''))]
   \<and> length [TransactionError (SwapTx SWAP_EXCEED_ALLOWANCE)
               (Some (AmountTooHighMessage (formatNumber exImports 1000000 0) ''DOT''))] \<le> 1
   \<and> length [TransactionError (BasicTx NOT_ENOUGH_BALANCE)
                (Some (XcmMaxMessage ''DOT'' (formatNumber exImports 1390000 0) ''HydraDX'' ''Polkadot''
                         (formatNumber exImports 1000000 0) (formatNumber exImports 390000 0)))] \<le> 1"
proof -
  have a: "validateSwapStep exImports (exBaseHandler 1000000 400000) (exValidateParams 1500000 2000) True
     = Inr [TransactionError (SwapTx SWAP_EXCEED_ALLOWANCE)
              (Some (AmountTooHighMessage (formatNumber exImports 1000000 0) ''DOT''))]"
    by (simp add: validateSwapStep_def ex_defs run_simps getTokenMinAmount_def getAssetDecimals_def)
  have b: "validateXcmStep exImports (exBaseHandler 1000000 400000) (exValidateParams 1500000 2000) 1
       = Inr [TransactionError (BasicTx NOT_ENOUGH_BALANCE)
                (Some (XcmMaxMessage ''DOT'' (formatNumber exImports 1390000 0) ''HydraDX'' ''Polkadot''
                         (formatNumber exImports 1000000 0) (formatNumber exImports 390000 0)))]"
    by (simp add: validateXcmStep_def ex_defs run_simps)
  from validation_returns_at_most_one_error
         [of exImports "exBaseHandler 1000000 400000" "exValidateParams 1500000 2000" True 1] a b
  show ?thesis by blast
qed

text \<open>
  C9 as stated fails: the quote has expired (it was alive until 1000, the clock reads
  1000) and the amount 1500000 is above the balance 1000000 less the minimum amount 0, and
  the result is the one error \<open>QUOTE_TIMEOUT\<close>. With the same input and a quote that
  is alive, the amount is reported.
\<close>

theorem validateSwapStep_two_violations_counterexample:
  "aliveUntil (exQuote 1500000 1000) \<le> now exImports
   \<and> quote_fromAmount (exQuote 1500000 1000) \<ge> 1000000 - getTokenMinAmount exFromAsset
   \<and> validateSwapStep exImports (exBaseHandler 1000000 400000) (exValidateParams 1500000 1000) True
       = Inr [TransactionError (SwapTx QUOTE_TIMEOUT) None]
   \<and> length [TransactionError (SwapTx QUOTE_TIMEOUT) None] = 1
   \<and> validateSwapStep exImports (exBaseHandler 1000000 400000) (exValidateParams 1500000 2000) True
       = Inr [TransactionError (SwapTx SWAP_EXCEED_ALLOWANCE)
                (Some (AmountTooHighMessage (formatNumber exImports 1000000 0) ''DOT''))]"
  by (simp add: validateSwapStep_def ex_defs run_simps getTokenMinAmount_def getAssetDecimals_def)

section \<open>The HydraDX generators\<close>

text \<open>
  When the balance is short, an alternative asset with a positive balance is configured
  and the lookups and the fee query go through, \<open>getXcmStep\<close> emits the transfer step.
\<close>

lemma getXcmStep_emits:
  assumes "getAssetBySlug (chainService this) (pair_from (req_pair (request params))) = Some fromAsset"
    and "getTokenFreeBalance (balanceService this) (req_address (request params))
           (originChain fromAsset) (slug fromAsset) = Inr fromBal"
    and "fromBal < req_fromAmount (request params)"
    and "getSwapAlternativeAsset imp (req_pair (request params)) = Some altSlug"
    and "getAssetBySlug (chainService this) altSlug = Some altAsset"
    and "getTokenFreeBalance (balanceService this) (req_address (request params))
           (originChain altAsset) (slug altAsset) = Inr altBal"
    and "0 < altBal"
    and "getChainInfoByKey (chainService this) (originChain altAsset) = Some altChain"
    and "xcmPaymentInfo imp altAsset fromAsset (req_fromAmount (request params))
           (req_address (request params)) = Inr partialFee"
    and "getChainNativeTokenSlug imp (Some altChain) = Inr nativeSlug"
  shows "getXcmStep imp this params =
           Inr (Some (\<lparr> metadata = Some (XcmMetadata (req_fromAmount (request params)) altAsset fromAsset),
                        step_name = ''Transfer '' @ symbol altAsset @ '' from '' @ chain_name altChain,
                        step_type = XCM \<rparr>,
                      \<lparr> feeComponent = [\<lparr> feeType = NETWORK_FEE, amount = Some (inflateFee imp partialFee),
                                          tokenSlug = nativeSlug \<rparr>],
                        defaultFeeToken = nativeSlug, feeOptions = [nativeSlug] \<rparr>))"
  using assms by (simp add: getXcmStep_def bindE_simps deref_simps Let_def)

text \<open>The path of the handler when \<open>getXcmStep\<close> yields a step.\<close>

lemma hydradx_path_eval:
  assumes "getXcmStep imp (swapBaseHandler this) params = Inr (Some (step, fee))"
  shows "Hydradx_generateOptimalProcess imp this params =
     \<lparr> totalFee = MOCK_SWAP_FEE imp # fee #
                    (case selectedQuote params of None \<Rightarrow> [] | Some q \<Rightarrow> [feeInfo q]),
       steps = DEFAULT_SWAP_FIRST_STEP imp
               # \<lparr> metadata = metadata step, step_name = step_name step,
                   step_type = step_type step, step_id = 1 \<rparr>
               # (case selectedQuote params of
                    None \<Rightarrow> []
                  | Some q \<Rightarrow> [\<lparr> metadata = None, step_name = ''Swap'', step_type = SWAP, step_id = 2 \<rparr>]) \<rparr>"
  using assms
  by (simp add: Hydradx_generateOptimalProcess_def generateOptimalProcess_def readOnly_def
        getSubmitStep_def split: option.splits)

lemma exXcmStepEval:
  "getXcmStep exImports (exBaseHandler 1000000 2000000) (exPathParams 1500000) =
     Inr (Some (\<lparr> metadata = Some (XcmMetadata 1500000 exAltAsset exFromAsset),
                  step_name = ''Transfer DOT from Polkadot'', step_type = XCM \<rparr>, exFee 10000))"
  by (simp add: getXcmStep_def ex_defs run_simps)

text \<open>
  C10. Whenever \<open>getXcmStep\<close> emits a step, the step is a cross-chain transfer and the
  \<open>sendingValue\<close> of its metadata is the whole \<open>fromAmount\<close> of the request, not the
  shortfall plus the fee.
\<close>

theorem getXcmStep_sends_whole_amount:
  assumes "getXcmStep imp this params = Inr (Some (step, fee))"
  shows "step_type step = XCM
       \<and> map_option sendingValue (metadata step) = Some (req_fromAmount (request params))"
  using assms
  by (auto simp: getXcmStep_def Let_def bindE_Inr_iff deref_Inr_iff split: option.splits if_splits)

text \<open>
  An instance: amount 1500000, balance 1000000, fee 10000. The step sends 1500000; the
  shortfall plus the fee would be 510000.
\<close>

theorem getXcmStep_sends_whole_amount_witness:
  "getXcmStep exImports (exBaseHandler 1000000 2000000) (exPathParams 1500000) =
     Inr (Some (\<lparr> metadata = Some (XcmMetadata 1500000 exAltAsset exFromAsset),
                  step_name = ''Transfer DOT from Polkadot'', step_type = XCM \<rparr>, exFee 10000))
   \<and> map_option sendingValue
        (metadata \<lparr> metadata = Some (XcmMetadata 1500000 exAltAsset exFromAsset),
                    step_name = ''Transfer DOT from Polkadot'', step_type = XCM \<rparr>)
       = Some (req_fromAmount (request (exPathParams 1500000)))
   \<and> req_fromAmount (request (exPathParams 1500000)) = 1500000
   \<and> req_fromAmount (request (exPathParams 1500000)) - 1000000 + 10000 = 510000"
proof -
  have "req_fromAmount (request (exPathParams 1500000)) = 1500000"
    by (simp add: exPathParams_def)
  with getXcmStep_sends_whole_amount [OF exXcmStepEval] exXcmStepEval show ?thesis by simp
qed

text \<open>
  C8, as amended. Where the requested amount exceeds the balance of the from-asset on its chain and
  an alternative asset is configured with a positive balance (any sufficient balance is
  positive), and the steps of \<open>getXcmStep\<close> that can fail go through (the lookup of
  the alternative chain, the fee query and the lookup of its native token), the path of \<open>HydradxHandler.generateOptimalProcess\<close> is the fixed first step, then the
  cross-chain transfer step with id 1, then, if a quote is selected, the swap step of
  \<open>getSubmitStep\<close> with id 2. With a first step that is not itself a transfer, the path
  holds exactly one cross-chain transfer step, and it stands before the swap step.
\<close>

theorem hydradx_path_one_xcm_step_before_submit:
  assumes "getAssetBySlug (chainService (swapBaseHandler this)) (pair_from (req_pair (request params)))
             = Some fromAsset"
    and "getTokenFreeBalance (balanceService (swapBaseHandler this)) (req_address (request params))
           (originChain fromAsset) (slug fromAsset) = Inr fromBal"
    and "fromBal < req_fromAmount (request params)"
    and "getSwapAlternativeAsset imp (req_pair (request params)) = Some altSlug"
    and "getAssetBySlug (chainService (swapBaseHandler this)) altSlug = Some altAsset"
    and "getTokenFreeBalance (balanceService (swapBaseHandler this)) (req_address (request params))
           (originChain altAsset) (slug altAsset) = Inr altBal"
    and "0 < altBal"
    and "getChainInfoByKey (chainService (swapBaseHandler this)) (originChain altAsset) = Some altChain"
    and "xcmPaymentInfo imp altAsset fromAsset (req_fromAmount (request params))
           (req_address (request params)) = Inr partialFee"
    and "getChainNativeTokenSlug imp (Some altChain) = Inr nativeSlug"
    and "step_type (DEFAULT_SWAP_FIRST_STEP imp) \<noteq> XCM"
  shows "steps (Hydradx_generateOptimalProcess imp this params) =
           DEFAULT_SWAP_FIRST_STEP imp
           # \<lparr> metadata = Some (XcmMetadata (req_fromAmount (request params)) altAsset fromAsset),
               step_name = ''Transfer '' @ symbol altAsset @ '' from '' @ chain_name altChain,
               step_type = XCM, step_id = 1 \<rparr>
           # (case selectedQuote params of
                None \<Rightarrow> []
              | Some q \<Rightarrow> [\<lparr> metadata = None, step_name = ''Swap'', step_type = SWAP, step_id = 2 \<rparr>])
       \<and> length (filter (\<lambda>st. step_type st = XCM) (steps (Hydradx_generateOptimalProcess imp this params))) = 1"
proof -
  have st: "steps (Hydradx_generateOptimalProcess imp this params) =
           DEFAULT_SWAP_FIRST_STEP imp
           # \<lparr> metadata = Some (XcmMetadata (req_fromAmount (request params)) altAsset fromAsset),
               step_name = ''Transfer '' @ symbol altAsset @ '' from '' @ chain_name altChain,
               step_type = XCM, step_id = 1 \<rparr>
           # (case selectedQuote params of
                None \<Rightarrow> []
              | Some q \<Rightarrow> [\<lparr> metadata = None, step_name = ''Swap'', step_type = SWAP, step_id = 2 \<rparr>])"
    by (simp add: hydradx_path_eval [OF getXcmStep_emits [OF assms(1-10)]])
  show ?thesis
    unfolding st using assms(11) by (simp split: option.splits)
qed

text \<open>
  The example of the specification: amount 1500000, balance 1000000, alternative balance
  2000000. The path is the first step, the transfer, the swap.
\<close>

theorem hydradx_path_one_xcm_step_before_submit_witness:
  "(1000000::int) < req_fromAmount (request (exPathParams 1500000))
   \<and> getSwapAlternativeAsset exImports (req_pair (request (exPathParams 1500000))) = Some ''polkadot-DOT''
   \<and> steps (Hydradx_generateOptimalProcess exImports
              (newHydradxHandler exChainService (exBalanceService 1000000 2000000) True)
              (exPathParams 1500000))
       = [DEFAULT_SWAP_FIRST_STEP exImports, exXcmStep 1500000, exSwapStep]
   \<and> length (filter (\<lambda>st. step_type st = XCM)
        (steps (Hydradx_generateOptimalProcess exImports
                  (newHydradxHandler exChainService (exBalanceService 1000000 2000000) True)
                  (exPathParams 1500000)))) = 1"
proof -
  let ?h = "newHydradxHandler exChainService (exBalanceService 1000000 2000000) True"
  let ?p = "exPathParams 1500000"
  have a: "getAssetBySlug (chainService (swapBaseHandler ?h)) (pair_from (req_pair (request ?p)))
             = Some exFromAsset"
    by (simp add: newHydradxHandler_def ex_defs)
  have b: "getTokenFreeBalance (balanceService (swapBaseHandler ?h)) (req_address (request ?p))
             (originChain exFromAsset) (slug exFromAsset) = Inr 1000000"
    by (simp add: newHydradxHandler_def ex_defs)
  have c: "(1000000::int) < req_fromAmount (request ?p)"
    by (simp add: exPathParams_def)
  have d: "getSwapAlternativeAsset exImports (req_pair (request ?p)) = Some ''polkadot-DOT''"
    by (simp add: ex_defs)
  have e: "getAssetBySlug (chainService (swapBaseHandler ?h)) ''polkadot-DOT'' = Some exAltAsset"
    by (simp add: newHydradxHandler_def ex_defs)
  have f: "getTokenFreeBalance (balanceService (swapBaseHandler ?h)) (req_address (request ?p))
             (originChain exAltAsset) (slug exAltAsset) = Inr 2000000"
    by (simp add: newHydradxHandler_def ex_defs)
  have g: "(0::int) < 2000000" by simp
  have h: "getChainInfoByKey (chainService (swapBaseHandler ?h)) (originChain exAltAsset)
             = Some \<lparr> chain_slug = ''polkadot'', chain_name = ''Polkadot'' \<rparr>"
    by (simp add: newHydradxHandler_def ex_defs)
  have i: "xcmPaymentInfo exImports exAltAsset exFromAsset (req_fromAmount (request ?p))
             (req_address (request ?p)) = Inr 8333"
    by (simp add: exImports_def)
  have j: "getChainNativeTokenSlug exImports (Some \<lparr> chain_slug = ''polkadot'', chain_name = ''Polkadot'' \<rparr>)
             = Inr ''polkadot-NATIVE''"
    by (simp add: exImports_def)
  have k: "step_type (DEFAULT_SWAP_FIRST_STEP exImports) \<noteq> XCM"
    by (simp add: exImports_def)
  have q: "selectedQuote ?p = Some (exQuote 1500000 2000)"
    by (simp add: exPathParams_def)
  have x: "exXcmStep 1500000 =
      \<lparr> metadata = Some (XcmMetadata (req_fromAmount (request ?p)) exAltAsset exFromAsset),
        step_name = ''Transfer '' @ symbol exAltAsset @ '' from ''
                      @ chain_name \<lparr> chain_slug = ''polkadot'', chain_name = ''Polkadot'' \<rparr>,
        step_type = XCM, step_id = 1 \<rparr>"
    by (simp add: exXcmStep_def exPathParams_def exAltAsset_def)
  note path = hydradx_path_one_xcm_step_before_submit [OF a b c d e f g h i j k]
  have s1: "steps (Hydradx_generateOptimalProcess exImports ?h ?p)
              = [DEFAULT_SWAP_FIRST_STEP exImports, exXcmStep 1500000, exSwapStep]"
    using path [THEN conjunct1] by (simp add: q x exSwapStep_def)
  have s2: "length (filter (\<lambda>st. step_type st = XCM)
              (steps (Hydradx_generateOptimalProcess exImports ?h ?p))) = 1"
    by (rule path [THEN conjunct2])
  from s1 s2 c d show ?thesis by blast
qed

text \<open>
  C8 as stated fails where the fee query rejects: the amount 1500000 exceeds the balance
  1000000, the alternative asset is configured and holds 2000000, and yet the path is the
  fixed first step alone, with no cross-chain transfer step and no swap step, because
  \<open>getXcmStep\<close> throws and \<open>generateOptimalProcess\<close> returns the path as it stands.
\<close>

theorem hydradx_path_fee_query_fails_counterexample:
  "(1000000::int) < req_fromAmount (request (exPathParams 1500000))
   \<and> getTokenFreeBalance (exBalanceService 1000000 2000000) ''5Alice'' ''hydradx'' ''hydradx-DOT''
       = Inr 1000000
   \<and> getSwapAlternativeAsset
        (exImports \<lparr> xcmPaymentInfo := (\<lambda>origin dest v recipient'. Inl (Rejected ''fee query failed'')) \<rparr>)
        (req_pair (request (exPathParams 1500000))) = Some ''polkadot-DOT''
   \<and> getTokenFreeBalance (exBalanceService 1000000 2000000) ''5Alice'' ''polkadot'' ''polkadot-DOT''
       = Inr 2000000
   \<and> selectedQuote (exPathParams 1500000) = Some (exQuote 1500000 2000)
   \<and> Hydradx_generateOptimalProcess
        (exImports \<lparr> xcmPaymentInfo := (\<lambda>origin dest v recipient'. Inl (Rejected ''fee query failed'')) \<rparr>)
        (newHydradxHandler exChainService (exBalanceService 1000000 2000000) True)
        (exPathParams 1500000)
       = \<lparr> totalFee = [MOCK_SWAP_FEE exImports], steps = [DEFAULT_SWAP_FIRST_STEP exImports] \<rparr>
   \<and> length (filter (\<lambda>st. step_type st = XCM) [DEFAULT_SWAP_FIRST_STEP exImports]) = 0"
  by (simp add: Hydradx_generateOptimalProcess_def generateOptimalProcess_def readOnly_def
        getXcmStep_def newHydradxHandler_def ex_defs run_simps)

section \<open>Readiness of the HydraDX handler\<close>

text \<open>
  C7, as amended. While the handler is not ready, \<open>getSwapQuote\<close> fails with the error
  kind \<open>UNKNOWN\<close> and produces no quote: whenever it returns, it returns that error, and
  it does return it as soon as the from-asset and the native token of its chain resolve.
  \<open>generateOptimalProcess\<close> does not read the readiness flag or the trade router: it
  returns the same step plan for a handler that is not ready as for the same handler
  made ready.
\<close>

theorem hydradx_not_ready:
  assumes "\<not> isReady this"
  shows "(\<forall>r. getSwapQuote imp this request' = Inr r \<longrightarrow> r = Inl (SwapError UNKNOWN None))
       \<and> (\<forall>fromAsset tokenSlug'.
            getAssetBySlug (chainService (swapBaseHandler this)) (pair_from (req_pair request')) = Some fromAsset
            \<and> getChainNativeTokenSlug imp
                 (getChainInfoByKey (chainService (swapBaseHandler this)) (originChain fromAsset)) = Inr tokenSlug'
            \<longrightarrow> getSwapQuote imp this request' = Inr (Inl (SwapError UNKNOWN None)))
       \<and> Hydradx_generateOptimalProcess imp this params
           = Hydradx_generateOptimalProcess imp (this \<lparr> tradeRouter := Some TradeRouter, isReady := True \<rparr>) params"
  using assms
  by (auto simp: getSwapQuote_def Let_def bindE_Inr_iff deref_Inr_iff bindE_simps deref_simps
        Hydradx_generateOptimalProcess_def)

text \<open>An instance: a handler fresh from its constructor is asked for a quote.\<close>

theorem hydradx_not_ready_witness:
  "\<not> isReady (newHydradxHandler exChainService (exBalanceService 1000000 2000000) True)
   \<and> getSwapQuote exImports (newHydradxHandler exChainService (exBalanceService 1000000 2000000) True)
        (request (exPathParams 1500000)) = Inr (Inl (SwapError UNKNOWN None))"
proof -
  let ?h = "newHydradxHandler exChainService (exBalanceService 1000000 2000000) True"
  have a: "\<not> isReady ?h" by (simp add: newHydradxHandler_def)
  have b: "getAssetBySlug (chainService (swapBaseHandler ?h)) (pair_from (req_pair (request (exPathParams 1500000))))
             = Some exFromAsset"
    by (simp add: newHydradxHandler_def ex_defs)
  have c: "getChainNativeTokenSlug exImports
             (getChainInfoByKey (chainService (swapBaseHandler ?h)) (originChain exFromAsset))
             = Inr ''hydradx-NATIVE''"
    by (simp add: newHydradxHandler_def ex_defs)
  from hydradx_not_ready [OF a, of exImports "request (exPathParams 1500000)"] a b c
  show ?thesis by blast
qed

text \<open>
  C7 as stated fails for plan generation: the handler fresh from its constructor is not
  ready, and \<open>generateOptimalProcess\<close> returns the full step plan, not an error.
\<close>

theorem hydradx_not_ready_plan_counterexample:
  "\<not> isReady (newHydradxHandler exChainService (exBalanceService 1000000 2000000) True)
   \<and> Hydradx_generateOptimalProcess exImports
        (newHydradxHandler exChainService (exBalanceService 1000000 2000000) True) (exPathParams 1500000)
       = \<lparr> totalFee = [MOCK_SWAP_FEE exImports, exFee 10000, feeInfo (exQuote 1500000 2000)],
           steps = [DEFAULT_SWAP_FIRST_STEP exImports, exXcmStep 1500000, exSwapStep] \<rparr>"
proof -
  let ?h = "newHydradxHandler exChainService (exBalanceService 1000000 2000000) True"
  have "swapBaseHandler ?h = exBaseHandler 1000000 2000000"
    by (simp add: newHydradxHandler_def exBaseHandler_def)
  with exXcmStepEval have "getXcmStep exImports (swapBaseHandler ?h) (exPathParams 1500000) =
     Inr (Some (\<lparr> metadata = Some (XcmMetadata 1500000 exAltAsset exFromAsset),
                  step_name = ''Transfer DOT from Polkadot'', step_type = XCM \<rparr>, exFee 10000))"
    by simp
  from hydradx_path_eval [OF this] show ?thesis
    by (simp add: exPathParams_def exXcmStep_def exSwapStep_def newHydradxHandler_def)
qed

end
